theory Spec2Isabelle
  imports Main "HOL-Library.AList"
begin

section \<open>The worktree registry\<close>

text \<open>
  The registry is the JSON object stored in \<^verbatim>\<open>~/.claude/worktrees/registry.json\<close>. Every
  script reads it with \<^verbatim>\<open>json.load\<close> into a Python dict and writes it back whole with
  \<^verbatim>\<open>json.dump\<close>. A Python dict keeps its keys in insertion order and holds each key once, so
  the registry is an association list whose keys are pairwise distinct; assigning to a key
  that is present replaces the value in place, assigning to a new key appends it
  (\<^const>\<open>AList.update\<close> does exactly that), and \<^verbatim>\<open>len\<close> is \<^const>\<open>length\<close>.

  A record of the registry is the dict that \<^verbatim>\<open>create_worktree\<close> builds, with its seven
  keys, and the optional key \<^verbatim>\<open>'pr'\<close> that the PR scripts read. That key is absent, or
  holds the JSON value \<^verbatim>\<open>null\<close>, or holds a dict, which is again an association list
  from member names to JSON scalars.
\<close>

datatype json = JNull | JBool bool | JInt int | JStr string

type_synonym pr_info = "(string \<times> json) list"

datatype pr_value = Pr_absent | Pr_null | Pr_dict pr_info

record worktree_info =
  wt_id :: string
  feature_name :: string
  path :: string
  branch :: string
  base_branch :: string
  created :: string
  status :: string
  pr :: pr_value

type_synonym registry = "(string \<times> worktree_info) list"

text \<open>
  The registry file either does not exist (\<^const>\<open>None\<close>), or holds text that is not JSON,
  or holds a registry.
\<close>

datatype reg_file = Malformed | Json registry

section \<open>Exceptions, subprocesses and effects\<close>

text \<open>
  The exceptions that the scripts raise or let through. \<^verbatim>\<open>sys.exit(n)\<close> raises
  \<^verbatim>\<open>SystemExit\<close>; an exception that reaches the top level ends the interpreter with
  status 1, and a \<^verbatim>\<open>main\<close> that returns normally ends it with status 0.
\<close>

datatype exn =
  SystemExit int
  | CalledProcessError
  | FileNotFoundError
  | JSONDecodeError
  | KeyError
  | AttributeError
  | ValueError
  | OverflowError

fun exit_status :: "exn + unit \<Rightarrow> int" where
  "exit_status (Inr u) = 0"
| "exit_status (Inl (SystemExit n)) = n"
| "exit_status (Inl e) = 1"

text \<open>
  What \<^verbatim>\<open>subprocess.run\<close> meets at one call site: the executable cannot be started
  (Python raises \<^verbatim>\<open>FileNotFoundError\<close>), or the process runs and returns a code. With
  \<^verbatim>\<open>check=True\<close> a non-zero code raises \<^verbatim>\<open>CalledProcessError\<close>.
\<close>

datatype run_result = Not_found | Completed int

fun check_true :: "run_result \<Rightarrow> exn option" where
  "check_true Not_found = Some FileNotFoundError"
| "check_true (Completed rc) = (if rc = 0 then None else Some CalledProcessError)"

text \<open>
  The effects on the outside world that a script performs, in order: a call of
  \<^verbatim>\<open>subprocess.run\<close> with its argument vector (and working directory), a directory
  created or deleted, a \<^verbatim>\<open>time.sleep\<close>.
\<close>

datatype event =
  Run "string list"
  | Run_cwd string "string list"
  | Mkdir string
  | Rmtree string
  | Sleep int

section \<open>Printing integers\<close>

definition digit_char :: "nat \<Rightarrow> char" where
  "digit_char d = ''0123456789'' ! d"

function str_nat :: "nat \<Rightarrow> string" where
  "str_nat n = (if n < 10 then [digit_char n] else str_nat (n div 10) @ [digit_char (n mod 10)])"
  by pat_completeness auto
termination
  by (relation "measure (\<lambda>n. n)") auto

declare str_nat.simps [simp del]

definition str_int :: "int \<Rightarrow> string" where
  "str_int i = (if i < 0 then CHR ''-'' # str_nat (nat (- i)) else str_nat (nat i))"

text \<open>
  \<^verbatim>\<open>str(x)\<close> where \<^verbatim>\<open>x\<close> is the result of \<^verbatim>\<open>dict.get\<close>: \<^verbatim>\<open>None\<close> for a missing
  member, otherwise the decoded JSON scalar.
\<close>

fun str_json :: "json option \<Rightarrow> string" where
  "str_json None = ''None''"
| "str_json (Some JNull) = ''None''"
| "str_json (Some (JBool b)) = (if b then ''True'' else ''False'')"
| "str_json (Some (JInt i)) = str_int i"
| "str_json (Some (JStr s)) = s"

text \<open>The format specification \<^verbatim>\<open>02d\<close> on a natural number: at least two digits.\<close>

definition format_02d :: "nat \<Rightarrow> string" where
  "format_02d n = (let s = str_nat n in replicate (2 - length s) CHR ''0'' @ s)"

section \<open>Functions shared by the scripts\<close>

text \<open>
  \<^verbatim>\<open>load_registry\<close>, \<^verbatim>\<open>save_registry\<close> and \<^verbatim>\<open>get_worktree_info\<close> are repeated in the
  scripts; the copies differ only in the message they print. Console output is not part
  of the model. Reading and writing the file itself is taken to succeed.
\<close>

fun load_registry :: "reg_file option \<Rightarrow> exn + registry" where
  "load_registry None = Inr []"
| "load_registry (Some Malformed) = Inl JSONDecodeError"
| "load_registry (Some (Json registry)) = Inr registry"

definition save_registry :: "registry \<Rightarrow> reg_file option" where
  "save_registry registry = Some (Json registry)"

definition get_worktree_info :: "string \<Rightarrow> registry \<Rightarrow> worktree_info option" where
  "get_worktree_info worktree_id registry = map_of registry worktree_id"

section \<open>\<^verbatim>\<open>worktree_check_pr_status.py\<close>\<close>

text \<open>
  The decoded standard output of \<^verbatim>\<open>gh pr view --json ...\<close>: text that \<^verbatim>\<open>json.loads\<close>
  rejects, or an object with its \<^verbatim>\<open>state\<close> and \<^verbatim>\<open>mergedAt\<close> members, each absent or present.
\<close>

datatype pr_json = Not_json | Pr_data "string option" "string option"

record check_env =
  gh_run :: run_result
  gh_stdout :: pr_json

text \<open>
  \<^verbatim>\<open>pr_info.get('number')\<close> and the command built from it.
\<close>

definition gh_command :: "pr_info \<Rightarrow> event" where
  "gh_command pr_info =
     Run [''gh'', ''pr'', ''view'', str_json (map_of pr_info ''number''),
          ''--json'', ''state,mergedAt,closedAt,title'']"

text \<open>
  \<^verbatim>\<open>check_pr_status\<close>. \<^verbatim>\<open>worktree_info.get('pr')\<close> is \<^verbatim>\<open>None\<close> for an absent key and
  for \<^verbatim>\<open>null\<close>; \<^verbatim>\<open>not pr_info\<close> holds for \<^verbatim>\<open>None\<close> and for the empty dict. Only
  \<^verbatim>\<open>CalledProcessError\<close> is caught around the query.
\<close>

definition check_pr_status ::
  "check_env \<Rightarrow> reg_file option \<Rightarrow> string \<Rightarrow> (exn + string \<times> string option) \<times> event list" where
  "check_pr_status env file worktree_id =
     (case load_registry file of
        Inl e \<Rightarrow> (Inl e, [])
      | Inr registry \<Rightarrow>
          if registry = [] then (Inr (''ERROR'', None), [])
          else
            (case get_worktree_info worktree_id registry of
               None \<Rightarrow> (Inr (''ERROR'', None), [])
             | Some worktree_info \<Rightarrow>
                 (case pr worktree_info of
                    Pr_absent \<Rightarrow> (Inr (''ERROR'', None), [])
                  | Pr_null \<Rightarrow> (Inr (''ERROR'', None), [])
                  | Pr_dict pr_info \<Rightarrow>
                      if pr_info = [] then (Inr (''ERROR'', None), [])
                      else
                        (let cmd = gh_command pr_info in
                         case gh_run env of
                           Not_found \<Rightarrow> (Inl FileNotFoundError, [cmd])
                         | Completed rc \<Rightarrow>
                             if rc \<noteq> 0 then (Inr (''ERROR'', None), [cmd])
                             else
                               (case gh_stdout env of
                                  Not_json \<Rightarrow> (Inl JSONDecodeError, [cmd])
                                | Pr_data None merged_at \<Rightarrow> (Inl KeyError, [cmd])
                                | Pr_data (Some state) merged_at \<Rightarrow>
                                    (Inr (state, merged_at), [cmd]))))))"

text \<open>
  \<^verbatim>\<open>main\<close>; \<open>argv\<close> is \<^verbatim>\<open>sys.argv[1:]\<close>. The result is how the process ends and
  the commands it ran. After the check, \<^verbatim>\<open>main\<close> looks the record up again and evaluates
  \<^verbatim>\<open>worktree_info.get('pr', {}).get('number')\<close>: the default \<^verbatim>\<open>{}\<close> stands in for an absent
  key only, so on \<^verbatim>\<open>null\<close> the second \<^verbatim>\<open>get\<close> raises \<^verbatim>\<open>AttributeError\<close>.
\<close>

definition check_main :: "check_env \<Rightarrow> reg_file option \<Rightarrow> string list \<Rightarrow> (exn + unit) \<times> event list" where
  "check_main env file argv =
     (case argv of
        [] \<Rightarrow> (Inl (SystemExit 2), [])
      | worktree_id # rest \<Rightarrow>
          (case check_pr_status env file worktree_id of
             (Inl e, tr) \<Rightarrow> (Inl e, tr)
           | (Inr (state, merged_at), tr) \<Rightarrow>
               (case load_registry file of
                  Inl e \<Rightarrow> (Inl e, tr)
                | Inr registry \<Rightarrow>
                    (case get_worktree_info worktree_id registry of
                       None \<Rightarrow> (Inl (SystemExit 2), tr)
                     | Some worktree_info \<Rightarrow>
                         (case pr worktree_info of
                            Pr_null \<Rightarrow> (Inl AttributeError, tr)
                          | _ \<Rightarrow>
                              if state = ''MERGED'' then (Inl (SystemExit 0), tr)
                              else if state = ''OPEN'' then (Inl (SystemExit 1), tr)
                              else if state = ''CLOSED'' then (Inl (SystemExit 2), tr)
                              else (Inl (SystemExit 2), tr))))))"

section \<open>\<^verbatim>\<open>worktree_create.py\<close>\<close>

text \<open>
  What one run of the script meets: the two \<^verbatim>\<open>git rev-parse\<close> calls with their stripped
  output, whether the target path exists, the \<^verbatim>\<open>git worktree add\<close> call and the clock.
  \<open>worktrees_dir\<close> is \<^verbatim>\<open>str(repo_root.parent / "worktrees")\<close>.
\<close>

record create_env =
  current_branch_run :: run_result
  current_branch_out :: string
  repo_root_run :: run_result
  worktrees_dir :: string
  worktree_path_exists :: bool
  worktree_add_run :: run_result
  now_isoformat :: string

definition generate_worktree_id :: "registry \<Rightarrow> string" where
  "generate_worktree_id registry =
     (let counter = length registry + 1 in ''worktree-'' @ format_02d counter)"

definition create_worktree ::
  "create_env \<Rightarrow> reg_file option \<Rightarrow> string \<Rightarrow>
     (exn + worktree_info option) \<times> reg_file option \<times> event list" where
  "create_worktree env file name =
     (let tr1 = [Run [''git'', ''rev-parse'', ''--abbrev-ref'', ''HEAD'']] in
      case check_true (current_branch_run env) of
        Some e \<Rightarrow> (Inl e, file, tr1)
      | None \<Rightarrow>
          (let base = current_branch_out env;
               tr2 = tr1 @ [Run [''git'', ''rev-parse'', ''--show-toplevel'']] in
           case check_true (repo_root_run env) of
             Some e \<Rightarrow> (Inl e, file, tr2)
           | None \<Rightarrow>
               (let tr3 = tr2 @ [Mkdir (worktrees_dir env)];
                    worktree_path = worktrees_dir env @ ''/'' @ name in
                if worktree_path_exists env then (Inr None, file, tr3)
                else
                  (let feature_branch = ''feature/'' @ name;
                       tr4 = tr3 @ [Run [''git'', ''worktree'', ''add'', ''-b'', feature_branch,
                                         worktree_path, base]] in
                   case check_true (worktree_add_run env) of
                     Some CalledProcessError \<Rightarrow> (Inr None, file, tr4)
                   | Some e \<Rightarrow> (Inl e, file, tr4)
                   | None \<Rightarrow>
                       (case load_registry file of
                          Inl e \<Rightarrow> (Inl e, file, tr4)
                        | Inr registry \<Rightarrow>
                            (let worktree_id = generate_worktree_id registry;
                                 worktree_info =
                                   \<lparr>wt_id = worktree_id, feature_name = name,
                                    path = worktree_path, branch = feature_branch,
                                    base_branch = base, created = now_isoformat env,
                                    status = ''active'', pr = Pr_absent\<rparr>
                             in (Inr (Some worktree_info),
                                 save_registry (AList.update worktree_id worktree_info registry),
                                 tr4)))))))"

text \<open>
  \<^verbatim>\<open>str.isalnum\<close> on the code points below 256: the ASCII letters and digits, and the
  Latin-1 letters, superscript digits and fractions. It is false on the empty string.
\<close>

definition isalnum_char :: "char \<Rightarrow> bool" where
  "isalnum_char c =
     (let n = of_char c :: nat in
      (48 \<le> n \<and> n \<le> 57) \<or> (65 \<le> n \<and> n \<le> 90) \<or> (97 \<le> n \<and> n \<le> 122) \<or>
      n = 170 \<or> n = 178 \<or> n = 179 \<or> n = 181 \<or> n = 185 \<or> n = 186 \<or>
      (188 \<le> n \<and> n \<le> 190) \<or> (192 \<le> n \<and> n \<le> 214) \<or> (216 \<le> n \<and> n \<le> 246) \<or>
      (248 \<le> n \<and> n \<le> 255))"

definition isalnum :: "string \<Rightarrow> bool" where
  "isalnum s = (s \<noteq> [] \<and> list_all isalnum_char s)"

text \<open>\<^verbatim>\<open>s.replace(c, '')\<close> for a one-character \<^verbatim>\<open>c\<close>.\<close>

definition remove_char :: "char \<Rightarrow> string \<Rightarrow> string" where
  "remove_char c s = filter (\<lambda>x. x \<noteq> c) s"

definition valid_feature_name :: "string \<Rightarrow> bool" where
  "valid_feature_name name = isalnum (remove_char CHR ''_'' (remove_char CHR ''-'' name))"

definition create_main ::
  "create_env \<Rightarrow> reg_file option \<Rightarrow> string list \<Rightarrow> (exn + unit) \<times> reg_file option \<times> event list" where
  "create_main env file argv =
     (case argv of
        [] \<Rightarrow> (Inl (SystemExit 1), file, [])
      | name # rest \<Rightarrow>
          if \<not> valid_feature_name name then (Inl (SystemExit 1), file, [])
          else
            (case create_worktree env file name of
               (Inl e, file', tr) \<Rightarrow> (Inl e, file', tr)
             | (Inr (Some worktree_info), file', tr) \<Rightarrow> (Inl (SystemExit 0), file', tr)
             | (Inr None, file', tr) \<Rightarrow> (Inl (SystemExit 1), file', tr)))"

section \<open>\<^verbatim>\<open>worktree_merge.py\<close>\<close>

text \<open>
  What one run of the script meets. All four commands start the same executable, so
  whether \<^verbatim>\<open>git\<close> can be started is one fact of the run; each command that starts has
  its own return code.
\<close>

record merge_env =
  merge_git_found :: bool
  merge_checkout_rc :: int
  pull_rc :: int
  merge_rc :: int
  push_rc :: int

definition git_run :: "bool \<Rightarrow> int \<Rightarrow> run_result" where
  "git_run found rc = (if found then Completed rc else Not_found)"

text \<open>
  A \<^verbatim>\<open>try\<close> around \<^verbatim>\<open>subprocess.run(..., check=True)\<close> that catches
  \<^verbatim>\<open>CalledProcessError\<close> and goes on: only a failure to start the executable escapes.
\<close>

fun warn_only :: "run_result \<Rightarrow> exn option" where
  "warn_only Not_found = Some FileNotFoundError"
| "warn_only (Completed rc) = None"

definition merge_worktree ::
  "merge_env \<Rightarrow> reg_file option \<Rightarrow> string \<Rightarrow> (exn + unit) \<times> reg_file option \<times> event list" where
  "merge_worktree env file worktree_id =
     (case load_registry file of
        Inl e \<Rightarrow> (Inl e, file, [])
      | Inr registry \<Rightarrow>
          if registry = [] then (Inl (SystemExit 1), file, [])
          else
            (case get_worktree_info worktree_id registry of
               None \<Rightarrow> (Inl (SystemExit 1), file, [])
             | Some worktree_info \<Rightarrow>
                 (let feature_branch = branch worktree_info;
                      base = base_branch worktree_info;
                      tr1 = [Run [''git'', ''checkout'', base]] in
                  case check_true (git_run (merge_git_found env) (merge_checkout_rc env)) of
                    Some CalledProcessError \<Rightarrow> (Inl (SystemExit 1), file, tr1)
                  | Some e \<Rightarrow> (Inl e, file, tr1)
                  | None \<Rightarrow>
                      (let tr2 = tr1 @ [Run [''git'', ''pull'', ''origin'', base]] in
                       case warn_only (git_run (merge_git_found env) (pull_rc env)) of
                         Some e \<Rightarrow> (Inl e, file, tr2)
                       | None \<Rightarrow>
                           (let tr3 = tr2 @ [Run [''git'', ''merge'', feature_branch, ''--no-ff'', ''-m'',
                                                  ''Merge '' @ feature_branch @ '' into '' @ base]] in
                            case check_true (git_run (merge_git_found env) (merge_rc env)) of
                              Some CalledProcessError \<Rightarrow> (Inl (SystemExit 1), file, tr3)
                            | Some e \<Rightarrow> (Inl e, file, tr3)
                            | None \<Rightarrow>
                                (let tr4 = tr3 @ [Run [''git'', ''push'', ''origin'', base]] in
                                 case warn_only (git_run (merge_git_found env) (push_rc env)) of
                                   Some e \<Rightarrow> (Inl e, file, tr4)
                                 | None \<Rightarrow>
                                     (Inr (),
                                      save_registry
                                        (AList.update worktree_id
                                           (worktree_info\<lparr>status := ''merged''\<rparr>) registry),
                                      tr4)))))))"

definition merge_main ::
  "merge_env \<Rightarrow> reg_file option \<Rightarrow> string list \<Rightarrow> (exn + unit) \<times> reg_file option \<times> event list" where
  "merge_main env file argv =
     (case argv of
        [] \<Rightarrow> (Inl (SystemExit 1), file, [])
      | worktree_id # rest \<Rightarrow> merge_worktree env file worktree_id)"

section \<open>\<^verbatim>\<open>worktree_cleanup.py\<close>\<close>

text \<open>
  What one run meets, call site by call site. \<^verbatim>\<open>worktree_path.exists()\<close> is asked twice,
  before the Docker teardown and after a failed \<^verbatim>\<open>git worktree remove\<close>;
  whether \<^verbatim>\<open>shutil.rmtree\<close> raises makes no difference, since every exception of it is
  caught. As in the merge script, whether \<^verbatim>\<open>git\<close> can be started is one fact of the run;
  \<^verbatim>\<open>docker-compose\<close> is another executable with its own outcome.
\<close>

record cleanup_env =
  path_exists_before :: bool
  compose_file_exists :: bool
  compose_down_run :: run_result
  cleanup_git_found :: bool
  worktree_remove_rc :: int
  path_exists_after :: bool
  branch_delete_rc :: int
  push_delete_rc :: int
  cleanup_checkout_rc :: int

text \<open>Both exceptions of the \<^verbatim>\<open>docker-compose\<close> call are caught, so the function always returns.\<close>

definition cleanup_docker :: "cleanup_env \<Rightarrow> string \<Rightarrow> event list" where
  "cleanup_docker env worktree_path =
     (if \<not> compose_file_exists env then []
      else [Run_cwd worktree_path [''docker-compose'', ''down'', ''-v'']])"

definition cleanup_worktree ::
  "cleanup_env \<Rightarrow> reg_file option \<Rightarrow> string \<Rightarrow> (exn + unit) \<times> reg_file option \<times> event list" where
  "cleanup_worktree env file worktree_id =
     (case load_registry file of
        Inl e \<Rightarrow> (Inl e, file, [])
      | Inr registry \<Rightarrow>
          if registry = [] then (Inl (SystemExit 1), file, [])
          else
            (case get_worktree_info worktree_id registry of
               None \<Rightarrow> (Inl (SystemExit 1), file, [])
             | Some worktree_info \<Rightarrow>
                 (let worktree_path = path worktree_info;
                      feature_branch = branch worktree_info;
                      base = base_branch worktree_info;
                      tr1 = (if path_exists_before env then cleanup_docker env worktree_path else []);
                      tr2 = tr1 @ [Run [''git'', ''worktree'', ''remove'', worktree_path, ''--force'']] in
                  case warn_only (git_run (cleanup_git_found env) (worktree_remove_rc env)) of
                    Some e \<Rightarrow> (Inl e, file, tr2)
                  | None \<Rightarrow>
                      (let tr3 = tr2 @
                             (if check_true (git_run (cleanup_git_found env) (worktree_remove_rc env)) = Some CalledProcessError
                                 \<and> path_exists_after env
                              then [Rmtree worktree_path] else []);
                           tr4 = tr3 @ [Run [''git'', ''branch'', ''-D'', feature_branch]] in
                       case warn_only (git_run (cleanup_git_found env) (branch_delete_rc env)) of
                         Some e \<Rightarrow> (Inl e, file, tr4)
                       | None \<Rightarrow>
                           (let tr5 = tr4 @ [Run [''git'', ''push'', ''origin'', ''--delete'', feature_branch]] in
                            case warn_only (git_run (cleanup_git_found env) (push_delete_rc env)) of
                              Some e \<Rightarrow> (Inl e, file, tr5)
                            | None \<Rightarrow>
                                (let tr6 = tr5 @ [Run [''git'', ''checkout'', base]] in
                                 case warn_only (git_run (cleanup_git_found env) (cleanup_checkout_rc env)) of
                                   Some e \<Rightarrow> (Inl e, file, tr6)
                                 | None \<Rightarrow>
                                     (Inr (),
                                      save_registry
                                        (AList.update worktree_id
                                           (worktree_info\<lparr>status := ''cleaned_up''\<rparr>) registry),
                                      tr6)))))))"

definition cleanup_main ::
  "cleanup_env \<Rightarrow> reg_file option \<Rightarrow> string list \<Rightarrow> (exn + unit) \<times> reg_file option \<times> event list" where
  "cleanup_main env file argv =
     (case argv of
        [] \<Rightarrow> (Inl (SystemExit 1), file, [])
      | worktree_id # rest \<Rightarrow> cleanup_worktree env file worktree_id)"

section \<open>\<^verbatim>\<open>worktree_poll_pr.py\<close>\<close>

text \<open>
  The loop starts the two other scripts as child processes. A child process is a
  transformer of the outside world \<open>'w\<close> that gives back how \<^verbatim>\<open>subprocess.run\<close> ended
  (no \<^verbatim>\<open>check=True\<close> here, so a non-zero code is returned, not raised). The status check
  is asked once per poll, so its behaviour may depend on the poll number; so may the clock,
  \<open>time_now env n\<close> being \<^verbatim>\<open>time.time()\<close> in whole seconds at poll \<open>n\<close>.
\<close>

record 'w poll_env =
  run_check :: "nat \<Rightarrow> 'w \<Rightarrow> run_result \<times> 'w"
  run_cleanup :: "'w \<Rightarrow> run_result \<times> 'w"
  time_now :: "nat \<Rightarrow> int"

text \<open>
  The two library calls of the branch that waits. \<^verbatim>\<open>datetime.fromtimestamp\<close> raises when
  the date is outside the years 1 to 9999 (local time is taken to be UTC; further out of
  range CPython raises \<^verbatim>\<open>OverflowError\<close> or \<^verbatim>\<open>OSError\<close> instead, which ends the run in
  the same way). \<^verbatim>\<open>time.sleep\<close> raises \<^verbatim>\<open>ValueError\<close> on a negative length and
  \<^verbatim>\<open>OverflowError\<close> on a length that does not fit 64-bit nanoseconds.
\<close>

definition fromtimestamp :: "int \<Rightarrow> exn + int" where
  "fromtimestamp t =
     (if t < - 62135596800 \<or> 253402300799 < t then Inl ValueError else Inr t)"

definition time_sleep :: "int \<Rightarrow> exn + event" where
  "time_sleep secs =
     (if secs < 0 then Inl ValueError
      else if 9223372036 < secs then Inl OverflowError
      else Inr (Sleep secs))"

definition check_command :: "string \<Rightarrow> event" where
  "check_command worktree_id = Run [''python'', ''scripts/worktree_check_pr_status.py'', worktree_id]"

definition cleanup_command :: "string \<Rightarrow> event" where
  "cleanup_command worktree_id = Run [''python'', ''scripts/worktree_cleanup.py'', worktree_id]"

text \<open>
  The \<^verbatim>\<open>while True\<close> loop, entered with the number of polls made so far. It need not
  return: \<^const>\<open>None\<close> is the run that polls forever.
\<close>

partial_function (option) poll_loop ::
  "'w poll_env \<Rightarrow> string \<Rightarrow> int \<Rightarrow> nat \<Rightarrow> 'w \<Rightarrow> event list \<Rightarrow> ((exn + unit) \<times> 'w \<times> event list) option" where
  "poll_loop env worktree_id interval_seconds poll_count w tr =
     (let poll_count' = poll_count + 1;
          tr1 = tr @ [check_command worktree_id] in
      case run_check env poll_count' w of
        (Not_found, w1) \<Rightarrow> Some (Inl FileNotFoundError, w1, tr1)
      | (Completed returncode, w1) \<Rightarrow>
          if returncode = 0 then
            (let tr2 = tr1 @ [cleanup_command worktree_id] in
             case run_cleanup env w1 of
               (Not_found, w2) \<Rightarrow> Some (Inl FileNotFoundError, w2, tr2)
             | (Completed cleanup_returncode, w2) \<Rightarrow>
                 if cleanup_returncode = 0 then Some (Inl (SystemExit 0), w2, tr2)
                 else Some (Inl (SystemExit 1), w2, tr2))
          else if returncode = 1 then
            (case fromtimestamp (time_now env poll_count' + interval_seconds) of
               Inl e \<Rightarrow> Some (Inl e, w1, tr1)
             | Inr next_poll_time \<Rightarrow>
                 (case time_sleep interval_seconds of
                    Inl e \<Rightarrow> Some (Inl e, w1, tr1)
                  | Inr slept \<Rightarrow>
                      poll_loop env worktree_id interval_seconds poll_count' w1 (tr1 @ [slept])))
          else Some (Inl (SystemExit 1), w1, tr1))"


text \<open>
  The child processes as the scripts of this repository: the world is the registry file,
  the status check of poll \<open>n\<close> meets \<open>checks n\<close>, the cleanup meets \<open>cl\<close>,
  \<open>python_found\<close> says whether the interpreter can be started, and \<open>clock\<close> is the time.
\<close>

definition script_env ::
  "bool \<Rightarrow> (nat \<Rightarrow> int) \<Rightarrow> (nat \<Rightarrow> check_env) \<Rightarrow> cleanup_env \<Rightarrow> string \<Rightarrow>
     (reg_file option) poll_env" where
  "script_env python_found clock checks cl worktree_id =
     \<lparr>run_check = (\<lambda>n file.
          if python_found
          then (Completed (exit_status (fst (check_main (checks n) file [worktree_id]))), file)
          else (Not_found, file)),
      run_cleanup = (\<lambda>file.
          if python_found
          then (case cleanup_main cl file [worktree_id] of
                  (r, file', tr) \<Rightarrow> (Completed (exit_status r), file'))
          else (Not_found, file)),
      time_now = clock\<rparr>"

section \<open>Example records\<close>

text \<open>The record of the scenarios of the specification, without and with a pull request.\<close>

definition example_record :: worktree_info where
  "example_record =
     \<lparr>wt_id = ''worktree-01'', feature_name = ''auth-ui'', path = ''/repos/worktrees/auth-ui'',
      branch = ''feature/auth-ui'', base_branch = ''main'', created = ''2024-05-01T10:00:00'',
      status = ''active'', pr = Pr_absent\<rparr>"

definition example_pr_record :: worktree_info where
  "example_pr_record =
     example_record\<lparr>pr := Pr_dict [(''number'', JInt 17), (''title'', JStr ''Auth UI'')]\<rparr>"

definition example_record2 :: worktree_info where
  "example_record2 =
     \<lparr>wt_id = ''worktree-02'', feature_name = ''billing'', path = ''/repos/worktrees/billing'',
      branch = ''feature/billing'', base_branch = ''main'', created = ''2024-05-03T09:30:00'',
      status = ''active'', pr = Pr_absent\<rparr>"

definition two_worktrees :: registry where
  "two_worktrees = [(''worktree-01'', example_record), (''worktree-02'', example_record2)]"

section \<open>Reading decimal numerals\<close>

text \<open>
  The value that a string of decimal digits denotes; it is what the number in an
  identifier \<^verbatim>\<open>worktree-NN\<close> is read back as.
\<close>

definition digit_val :: "char \<Rightarrow> nat" where
  "digit_val c = of_char c - 48"

definition decimal_value :: "string \<Rightarrow> nat" where
  "decimal_value s = foldl (\<lambda>a c. 10 * a + digit_val c) 0 s"

definition is_digit :: "char \<Rightarrow> bool" where
  "is_digit c = (48 \<le> (of_char c :: nat) \<and> (of_char c :: nat) \<le> 57)"

section \<open>The feature name as the specification words it\<close>

text \<open>
  A name that "contains only alphanumerics, hyphens and underscores", character by
  character, to be compared with the check that \<^verbatim>\<open>main\<close> makes.
\<close>

definition spec_allowed_char :: "char \<Rightarrow> bool" where
  "spec_allowed_char c = (isalnum_char c \<or> c = CHR ''-'' \<or> c = CHR ''_'')"

definition spec_valid_name :: "string \<Rightarrow> bool" where
  "spec_valid_name name = list_all spec_allowed_char name"

text \<open>A run of the create script in which every step succeeds.\<close>

definition example_create_env :: create_env where
  "example_create_env =
     \<lparr>current_branch_run = Completed 0, current_branch_out = ''main'',
      repo_root_run = Completed 0, worktrees_dir = ''/repos/worktrees'',
      worktree_path_exists = False, worktree_add_run = Completed 0,
      now_isoformat = ''2024-05-01T10:00:00''\<rparr>"

section \<open>Auxiliary notions for the create script\<close>

text \<open>
  The record that \<^verbatim>\<open>create_worktree\<close> builds, and the runs in which every step before
  the registry is read succeeds.
\<close>

definition created_record :: "create_env \<Rightarrow> string \<Rightarrow> string \<Rightarrow> worktree_info" where
  "created_record env worktree_id name =
     \<lparr>wt_id = worktree_id, feature_name = name,
      path = worktrees_dir env @ ''/'' @ name, branch = ''feature/'' @ name,
      base_branch = current_branch_out env, created = now_isoformat env,
      status = ''active'', pr = Pr_absent\<rparr>"

definition create_steps_succeed :: "create_env \<Rightarrow> bool" where
  "create_steps_succeed env =
     (current_branch_run env = Completed 0 \<and> repo_root_run env = Completed 0 \<and>
      \<not> worktree_path_exists env \<and> worktree_add_run env = Completed 0)"

section \<open>Auxiliary notions for the merge and cleanup scripts\<close>

text \<open>
  The four commands of a complete merge, the registry after a merge and after a cleanup
  of the record \<open>w\<close> stored under \<open>wid\<close>, and two example runs: a merge whose pull and
  push fail, and a cleanup in which every best-effort step fails.
\<close>

definition merge_commands :: "worktree_info \<Rightarrow> event list" where
  "merge_commands w =
     [Run [''git'', ''checkout'', base_branch w],
      Run [''git'', ''pull'', ''origin'', base_branch w],
      Run [''git'', ''merge'', branch w, ''--no-ff'', ''-m'',
           ''Merge '' @ branch w @ '' into '' @ base_branch w],
      Run [''git'', ''push'', ''origin'', base_branch w]]"

definition merged_registry :: "string \<Rightarrow> worktree_info \<Rightarrow> registry \<Rightarrow> registry" where
  "merged_registry wid w registry = AList.update wid (w\<lparr>status := ''merged''\<rparr>) registry"

definition cleaned_registry :: "string \<Rightarrow> worktree_info \<Rightarrow> registry \<Rightarrow> registry" where
  "cleaned_registry wid w registry = AList.update wid (w\<lparr>status := ''cleaned_up''\<rparr>) registry"



section \<open>Auxiliary notions for the polling loop\<close>










section \<open>The exit codes of the PR status check\<close>

text \<open>
  Where the script keeps to its exit-code contract: when the record has a non-empty PR
  sub-record and \<^verbatim>\<open>gh\<close> answers with a state, it exits with 0 on \<^verbatim>\<open>MERGED\<close>, with 1 on
  \<^verbatim>\<open>OPEN\<close> and with 2 on \<^verbatim>\<open>CLOSED\<close> and on every other state; when \<^verbatim>\<open>gh\<close> returns a
  non-zero code it exits with 2; when the PR key is absent or the sub-record is empty, or
  the identifier is not in the registry, it exits with 2 and has run no command.
\<close>

lemma check_main_contract:
  "(load_registry regfile = Inr registry \<and> get_worktree_info wid registry = Some w \<and>
      pr w = Pr_dict d \<and> d \<noteq> [] \<and> gh_run env = Completed 0 \<and>
      gh_stdout env = Pr_data (Some st) m \<longrightarrow>
      check_main env regfile [wid] =
        (Inl (SystemExit (if st = ''MERGED'' then 0 else if st = ''OPEN'' then 1 else 2)),
         [gh_command d])) \<and>
   (load_registry regfile = Inr registry \<and> get_worktree_info wid registry = Some w \<and>
      pr w = Pr_dict d \<and> d \<noteq> [] \<and> gh_run env = Completed rc \<and> rc \<noteq> 0 \<longrightarrow>
      check_main env regfile [wid] = (Inl (SystemExit 2), [gh_command d])) \<and>
   (load_registry regfile = Inr registry \<and> get_worktree_info wid registry = Some w \<and>
      (pr w = Pr_absent \<or> pr w = Pr_dict []) \<longrightarrow>
      check_main env regfile [wid] = (Inl (SystemExit 2), [])) \<and>
   (load_registry regfile = Inr registry \<and> get_worktree_info wid registry = None \<longrightarrow>
      check_main env regfile [wid] = (Inl (SystemExit 2), []))"
  by (auto simp: check_main_def check_pr_status_def Let_def get_worktree_info_def)

text \<open>
  Claim C1 says that the script exits with 2 whenever the query fails and whenever the
  record has no PR sub-record. The code does not: the \<^verbatim>\<open>try\<close> around the query catches
  \<^verbatim>\<open>CalledProcessError\<close> only. When \<^verbatim>\<open>gh\<close> cannot be started, when its output is not
  JSON and when the output has no \<^verbatim>\<open>state\<close> member, the exception reaches the top level
  and the process ends with status 1, the code that tells the polling loop to go on. When
  the record holds \<^verbatim>\<open>"pr": null\<close>, no query is made, and \<^verbatim>\<open>main\<close> then raises
  \<^verbatim>\<open>AttributeError\<close>: status 1 again. The theorem runs the script on these four inputs.
\<close>

theorem check_main_uncaught_failures:
  "check_main \<lparr>gh_run = Not_found, gh_stdout = Not_json\<rparr>
     (Some (Json [(''worktree-01'', example_pr_record)])) [''worktree-01'']
     = (Inl FileNotFoundError,
        [Run [''gh'', ''pr'', ''view'', ''17'', ''--json'', ''state,mergedAt,closedAt,title'']]) \<and>
   exit_status (Inl FileNotFoundError) = 1 \<and>
   check_main \<lparr>gh_run = Completed 0, gh_stdout = Not_json\<rparr>
     (Some (Json [(''worktree-01'', example_pr_record)])) [''worktree-01'']
     = (Inl JSONDecodeError,
        [Run [''gh'', ''pr'', ''view'', ''17'', ''--json'', ''state,mergedAt,closedAt,title'']]) \<and>
   exit_status (Inl JSONDecodeError) = 1 \<and>
   check_main \<lparr>gh_run = Completed 0, gh_stdout = Pr_data None None\<rparr>
     (Some (Json [(''worktree-01'', example_pr_record)])) [''worktree-01'']
     = (Inl KeyError,
        [Run [''gh'', ''pr'', ''view'', ''17'', ''--json'', ''state,mergedAt,closedAt,title'']]) \<and>
   exit_status (Inl KeyError) = 1 \<and>
   check_main \<lparr>gh_run = Completed 0, gh_stdout = Pr_data (Some ''MERGED'') None\<rparr>
     (Some (Json [(''worktree-01'', example_record\<lparr>pr := Pr_null\<rparr>)])) [''worktree-01'']
     = (Inl AttributeError, []) \<and>
   exit_status (Inl AttributeError) = 1"
  by (simp add: check_main_def check_pr_status_def get_worktree_info_def example_pr_record_def
        example_record_def gh_command_def str_int_def str_nat.simps digit_char_def)

section \<open>Worktree identifiers\<close>

lemma lt10_cases: "d < 10 \<Longrightarrow> d = 0 \<or> d = 1 \<or> d = 2 \<or> d = 3 \<or> d = 4 \<or> d = 5 \<or> d = 6 \<or> d = 7 \<or> d = 8 \<or> d = (9::nat)"
  by arith

lemma of_char_digit_char: "d < 10 \<Longrightarrow> (of_char (digit_char d) :: nat) = 48 + d"
  using lt10_cases [of d] by (auto simp: digit_char_def)

lemma digit_val_digit_char: "d < 10 \<Longrightarrow> digit_val (digit_char d) = d"
  by (simp add: digit_val_def of_char_digit_char)

lemma is_digit_digit_char: "d < 10 \<Longrightarrow> is_digit (digit_char d)"
  by (simp add: is_digit_def of_char_digit_char)

lemma decimal_value_snoc: "decimal_value (s @ [c]) = 10 * decimal_value s + digit_val c"
  by (simp add: decimal_value_def)

lemma decimal_value_str_nat: "decimal_value (str_nat n) = n"
proof (induction n rule: str_nat.induct)
  case (1 n)
  show ?case
  proof (cases "n < 10")
    case True
    then show ?thesis
      by (subst str_nat.simps) (simp add: decimal_value_def digit_val_digit_char)
  next
    case False
    with 1 have "decimal_value (str_nat (n div 10)) = n div 10" by simp
    with False show ?thesis
      by (subst str_nat.simps) (simp add: decimal_value_snoc digit_val_digit_char)
  qed
qed

lemma digits_str_nat: "list_all is_digit (str_nat n)"
proof (induction n rule: str_nat.induct)
  case (1 n)
  show ?case
  proof (cases "n < 10")
    case True
    then show ?thesis by (subst str_nat.simps) (simp add: is_digit_digit_char)
  next
    case False
    with 1 have "list_all is_digit (str_nat (n div 10))" by simp
    with False show ?thesis by (subst str_nat.simps) (simp add: is_digit_digit_char)
  qed
qed

lemma str_nat_nonempty: "str_nat n \<noteq> []"
  by (subst str_nat.simps) simp

lemma length_str_nat_small: "n < 10 \<Longrightarrow> length (str_nat n) = 1"
  by (subst str_nat.simps) simp

lemma length_str_nat_two: "10 \<le> n \<Longrightarrow> n < 100 \<Longrightarrow> length (str_nat n) = 2"
  by (subst str_nat.simps) (simp add: length_str_nat_small)

lemma length_str_nat_big: "10 \<le> n \<Longrightarrow> 2 \<le> length (str_nat n)"
  using str_nat_nonempty [of "n div 10"]
  by (subst str_nat.simps) (cases "str_nat (n div 10)"; simp)

lemma decimal_value_zeros: "decimal_value (replicate k CHR ''0'' @ s) = decimal_value s"
proof -
  have "foldl (\<lambda>a c. 10 * a + digit_val c) 0 (replicate k CHR ''0'') = 0"
    by (induction k) (simp_all add: digit_val_def)
  then show ?thesis by (simp add: decimal_value_def)
qed

lemma decimal_value_format_02d: "decimal_value (format_02d n) = n"
  by (simp add: format_02d_def Let_def decimal_value_zeros decimal_value_str_nat)

lemma length_format_02d: "length (format_02d n) = (if n < 100 then 2 else length (str_nat n))"
proof -
  consider "n < 10" | "10 \<le> n" "n < 100" | "100 \<le> n" by linarith
  then show ?thesis
  proof cases
    case 1 then show ?thesis by (simp add: format_02d_def Let_def length_str_nat_small)
  next
    case 2 then show ?thesis by (simp add: format_02d_def Let_def length_str_nat_two)
  next
    case 3
    then have "2 \<le> length (str_nat n)" by (simp add: length_str_nat_big)
    with 3 show ?thesis by (simp add: format_02d_def Let_def)
  qed
qed

lemma digits_zeros: "list_all is_digit (replicate k CHR ''0'')"
  by (induction k) (simp_all add: is_digit_def)

lemma digits_format_02d: "list_all is_digit (format_02d n)"
  by (simp add: format_02d_def Let_def digits_str_nat digits_zeros)

lemma format_02d_cases: "format_02d n = (if n < 10 then CHR ''0'' # str_nat n else str_nat n)"
proof (cases "n < 10")
  case True
  then show ?thesis by (simp add: format_02d_def Let_def length_str_nat_small)
next
  case False
  then have "2 \<le> length (str_nat n)" by (simp add: length_str_nat_big)
  with False show ?thesis by (simp add: format_02d_def Let_def)
qed

text \<open>
  Claim C5. The identifier is \<^verbatim>\<open>worktree-\<close> followed by the number of records plus one,
  printed in decimal with a leading zero when it has one digit: the suffix consists of
  digits, reads back as that number, and has exactly two characters below 100. The
  identifier depends on the size of the registry only, so it is the same for two
  registries of the same size (and for two calls on the same registry), and different
  for different sizes. After \<^verbatim>\<open>worktree-01\<close> has been removed from a registry of two
  records, the identifier generated next is \<^verbatim>\<open>worktree-02\<close>, which is still present.
\<close>

theorem generate_worktree_id_format:
  "generate_worktree_id registry = ''worktree-'' @ format_02d (length registry + 1) \<and>
   format_02d (length registry + 1) =
     (if length registry + 1 < 10 then CHR ''0'' # str_nat (length registry + 1)
      else str_nat (length registry + 1)) \<and>
   list_all is_digit (format_02d (length registry + 1)) \<and>
   decimal_value (format_02d (length registry + 1)) = length registry + 1 \<and>
   (length registry + 1 < 100 \<longrightarrow> length (format_02d (length registry + 1)) = 2) \<and>
   (length registry' = length registry \<longrightarrow>
      generate_worktree_id registry' = generate_worktree_id registry) \<and>
   (generate_worktree_id registry' = generate_worktree_id registry \<longrightarrow>
      length registry' = length registry) \<and>
   generate_worktree_id (AList.delete ''worktree-01'' two_worktrees)
     \<in> fst ` set (AList.delete ''worktree-01'' two_worktrees)"
proof -
  have inj: "length registry' = length registry"
    if "generate_worktree_id registry' = generate_worktree_id registry"
  proof -
    from that have "format_02d (length registry' + 1) = format_02d (length registry + 1)"
      by (simp add: generate_worktree_id_def)
    then have "decimal_value (format_02d (length registry' + 1))
        = decimal_value (format_02d (length registry + 1))" by simp
    then show ?thesis by (simp add: decimal_value_format_02d)
  qed
  have collide: "generate_worktree_id (AList.delete ''worktree-01'' two_worktrees)
     \<in> fst ` set (AList.delete ''worktree-01'' two_worktrees)"
    by (simp add: two_worktrees_def generate_worktree_id_def format_02d_cases
          str_nat.simps digit_char_def)
  have pad: "format_02d n = (if n < 10 then CHR ''0'' # str_nat n else str_nat n)" for n
    by (rule format_02d_cases)
  have len: "n < 100 \<longrightarrow> length (format_02d n) = 2" for n
    by (simp add: length_format_02d)
  have gen: "generate_worktree_id registry = ''worktree-'' @ format_02d (length registry + 1)"
    by (simp add: generate_worktree_id_def)
  have det: "length registry' = length registry \<longrightarrow>
      generate_worktree_id registry' = generate_worktree_id registry"
    by (simp add: generate_worktree_id_def)
  from gen pad digits_format_02d decimal_value_format_02d len det inj collide
  show ?thesis by blast
qed

text \<open>The theorem at two registries of one record each.\<close>

theorem generate_worktree_id_format_witness:
  "length [(''worktree-01'', example_record)] + 1 < 100 \<and>
   generate_worktree_id [(''worktree-01'', example_record)] = ''worktree-02'' \<and>
   length [(''worktree-02'', example_record2)] = length [(''worktree-01'', example_record)] \<and>
   generate_worktree_id [(''worktree-02'', example_record2)] = ''worktree-02''"
proof -
  have two: "format_02d (Suc (Suc 0)) = ''02''"
    by code_simp
  have same: "generate_worktree_id [(''worktree-02'', example_record2)]
      = generate_worktree_id [(''worktree-01'', example_record)]"
    using generate_worktree_id_format [of "[(''worktree-01'', example_record)]"
          "[(''worktree-02'', example_record2)]"]
    by simp
  have "generate_worktree_id [(''worktree-01'', example_record)] = ''worktree-02''"
    using two by (simp add: generate_worktree_id_def)
  with same show ?thesis by simp
qed

section \<open>Validation of the feature name\<close>

lemma not_alnum_hyphen: "\<not> isalnum_char CHR ''-''"
  by (simp add: isalnum_char_def)

lemma not_alnum_underscore: "\<not> isalnum_char CHR ''_''"
  by (simp add: isalnum_char_def)

lemma alnum_after_removal:
  "list_all isalnum_char (remove_char CHR ''_'' (remove_char CHR ''-'' name))
     \<longleftrightarrow> spec_valid_name name"
  by (induction name)
     (simp_all add: remove_char_def spec_valid_name_def spec_allowed_char_def
        not_alnum_hyphen not_alnum_underscore)

lemma nonempty_after_removal:
  "spec_valid_name name \<Longrightarrow>
     remove_char CHR ''_'' (remove_char CHR ''-'' name) \<noteq> [] \<longleftrightarrow> list_ex isalnum_char name"
proof (induction name)
  case Nil
  then show ?case by (simp add: remove_char_def)
next
  case (Cons c name)
  then have "spec_allowed_char c" and "spec_valid_name name"
    by (simp_all add: spec_valid_name_def)
  with Cons.IH show ?case
    using not_alnum_hyphen not_alnum_underscore
    by (cases "isalnum_char c") (auto simp: remove_char_def spec_allowed_char_def)
qed

lemma valid_feature_name_chars:
  "valid_feature_name name \<longleftrightarrow> spec_valid_name name \<and> list_ex isalnum_char name"
  using alnum_after_removal [of name] nonempty_after_removal [of name]
  unfolding valid_feature_name_def isalnum_def by blast

lemma generate_first: "generate_worktree_id [] = ''worktree-01''"
  by code_simp

text \<open>
  Claim C8, as amended. The create script accepts a name exactly when it contains only
  alphanumerics, hyphens and underscores and at least one alphanumeric. A name that is
  not accepted makes the script exit with status 1 before it runs any command or touches
  the registry; an accepted name is passed on to \<^verbatim>\<open>create_worktree\<close>, which runs at
  least one command.
\<close>

theorem feature_name_validation:
  "(valid_feature_name name \<longleftrightarrow> spec_valid_name name \<and> list_ex isalnum_char name) \<and>
   (\<not> valid_feature_name name \<longrightarrow>
      create_main env regfile (name # rest) = (Inl (SystemExit 1), regfile, [])) \<and>
   (valid_feature_name name \<longrightarrow>
      snd (create_main env regfile (name # rest)) = snd (create_worktree env regfile name) \<and>
      snd (snd (create_worktree env regfile name)) \<noteq> [])"
proof -
  have run: "snd (snd (create_worktree env regfile name)) \<noteq> []"
    by (auto simp: create_worktree_def Let_def split: option.splits exn.splits sum.splits)
  have same: "snd (create_main env regfile (name # rest)) = snd (create_worktree env regfile name)"
    if "valid_feature_name name"
    using that by (auto simp: create_main_def split: prod.splits sum.splits option.splits)
  show ?thesis
    using run same valid_feature_name_chars [of name] by (simp add: create_main_def)
qed

text \<open>The theorem at an accepted and at a rejected name.\<close>

theorem feature_name_validation_witness:
  "valid_feature_name ''auth-ui'' \<and>
   snd (create_main example_create_env None [''auth-ui''])
     = snd (create_worktree example_create_env None ''auth-ui'') \<and>
   \<not> valid_feature_name ''auth ui'' \<and>
   create_main example_create_env None [''auth ui''] = (Inl (SystemExit 1), None, [])"
proof -
  have ok: "valid_feature_name ''auth-ui''"
    by (simp add: valid_feature_name_def isalnum_def remove_char_def isalnum_char_def)
  have bad: "\<not> valid_feature_name ''auth ui''"
    by (simp add: valid_feature_name_def isalnum_def remove_char_def isalnum_char_def)
  from ok bad
    feature_name_validation [of "''auth-ui''" example_create_env None "[]"]
    feature_name_validation [of "''auth ui''" example_create_env None "[]"]
  show ?thesis by simp
qed

text \<open>
  Claim C8 as it is stated fails: the name \<^verbatim>\<open>-\<close> contains only allowed characters and
  is rejected.
\<close>

theorem feature_name_counterexample:
  "spec_valid_name ''-'' \<and> \<not> valid_feature_name ''-''"
  by (simp add: spec_valid_name_def spec_allowed_char_def valid_feature_name_def isalnum_def
        remove_char_def)

text \<open>
  Claim C10. A name made of hyphens and underscores only, the empty name included,
  consists of allowed characters; removing the hyphens and underscores leaves the empty
  string, which is not alphanumeric, so the script rejects the name and exits with
  status 1, having run nothing.
\<close>

theorem separator_only_names_rejected:
  "set name \<subseteq> {CHR ''-'', CHR ''_''} \<Longrightarrow>
     spec_valid_name name \<and>
     remove_char CHR ''_'' (remove_char CHR ''-'' name) = [] \<and>
     \<not> valid_feature_name name \<and>
     create_main env regfile (name # rest) = (Inl (SystemExit 1), regfile, []) \<and>
     exit_status (fst (create_main env regfile (name # rest))) \<noteq> 0"
proof -
  assume sub: "set name \<subseteq> {CHR ''-'', CHR ''_''}"
  have empty: "remove_char CHR ''_'' (remove_char CHR ''-'' name) = []"
    using sub by (auto simp: remove_char_def filter_empty_conv)
  then have invalid: "\<not> valid_feature_name name"
    by (simp add: valid_feature_name_def isalnum_def)
  have "spec_valid_name name"
    using sub by (auto simp: spec_valid_name_def spec_allowed_char_def list_all_iff)
  with empty invalid show ?thesis by (simp add: create_main_def)
qed

text \<open>The theorem at the names \<^verbatim>\<open>-_-\<close> and the empty string.\<close>

theorem separator_only_names_rejected_witness:
  "set ''-_-'' \<subseteq> {CHR ''-'', CHR ''_''} \<and>
   create_main example_create_env None [''-_-''] = (Inl (SystemExit 1), None, []) \<and>
   set '''' \<subseteq> {CHR ''-'', CHR ''_''} \<and>
   create_main example_create_env None [''''] = (Inl (SystemExit 1), None, [])"
proof -
  have a: "set ''-_-'' \<subseteq> {CHR ''-'', CHR ''_''}" by simp
  have b: "set '''' \<subseteq> {CHR ''-'', CHR ''_''}" by simp
  from a b
    separator_only_names_rejected [OF a, of example_create_env None "[]"]
    separator_only_names_rejected [OF b, of example_create_env None "[]"]
  show ?thesis by simp
qed

section \<open>Loading the registry, and creating a worktree\<close>

lemma create_worktree_success:
  assumes "create_steps_succeed env" and "load_registry regfile = Inr registry"
  shows "create_worktree env regfile name =
    (Inr (Some (created_record env (generate_worktree_id registry) name)),
     save_registry (AList.update (generate_worktree_id registry)
        (created_record env (generate_worktree_id registry) name) registry),
     [Run [''git'', ''rev-parse'', ''--abbrev-ref'', ''HEAD''],
      Run [''git'', ''rev-parse'', ''--show-toplevel''],
      Mkdir (worktrees_dir env),
      Run [''git'', ''worktree'', ''add'', ''-b'', ''feature/'' @ name,
           worktrees_dir env @ ''/'' @ name, current_branch_out env]])"
  using assms
  by (simp add: create_worktree_def create_steps_succeed_def created_record_def Let_def)

lemma create_worktree_malformed:
  assumes "create_steps_succeed env"
  shows "fst (create_worktree env (Some Malformed) name) = Inl JSONDecodeError"
    and "fst (snd (create_worktree env (Some Malformed) name)) = Some Malformed"
  using assms
  by (simp_all add: create_worktree_def create_steps_succeed_def Let_def)

text \<open>
  Claim C9. \<^verbatim>\<open>load_registry\<close> returns the empty registry when the file does not exist,
  and the create script then registers its worktree as \<^verbatim>\<open>worktree-01\<close> in a new file.
  When the file holds text that is not JSON, \<^verbatim>\<open>load_registry\<close> raises the parser's
  \<^verbatim>\<open>JSONDecodeError\<close>, and no caller handles it: \<^verbatim>\<open>create_worktree\<close> (which reads the
  registry after the worktree has been added) and its \<^verbatim>\<open>main\<close>, and the merge, cleanup
  and status-check scripts all end with that exception, the file left as it was.
\<close>

theorem load_registry_missing_or_malformed:
  "load_registry None = Inr [] \<and>
   load_registry (Some Malformed) = Inl JSONDecodeError \<and>
   (create_steps_succeed env \<longrightarrow>
      fst (create_worktree env None name) = Inr (Some (created_record env ''worktree-01'' name)) \<and>
      fst (snd (create_worktree env None name))
        = Some (Json [(''worktree-01'', created_record env ''worktree-01'' name)]) \<and>
      fst (create_worktree env (Some Malformed) name) = Inl JSONDecodeError \<and>
      fst (snd (create_worktree env (Some Malformed) name)) = Some Malformed \<and>
      (valid_feature_name name \<longrightarrow>
         fst (create_main env (Some Malformed) (name # rest)) = Inl JSONDecodeError \<and>
         exit_status (fst (create_main env (Some Malformed) (name # rest))) = 1)) \<and>
   merge_main menv (Some Malformed) (wid # rest) = (Inl JSONDecodeError, Some Malformed, []) \<and>
   cleanup_main cenv (Some Malformed) (wid # rest) = (Inl JSONDecodeError, Some Malformed, []) \<and>
   check_main kenv (Some Malformed) (wid # rest) = (Inl JSONDecodeError, [])"
proof -
  have first: "generate_worktree_id [] = ''worktree-01''"
    by code_simp
  have main: "fst (create_main env (Some Malformed) (name # rest)) = Inl JSONDecodeError"
    if "create_steps_succeed env" "valid_feature_name name"
    using that create_worktree_malformed [of env name]
    by (cases "create_worktree env (Some Malformed) name") (simp add: create_main_def)
  have ok: "create_worktree env None name =
    (Inr (Some (created_record env ''worktree-01'' name)),
     Some (Json [(''worktree-01'', created_record env ''worktree-01'' name)]),
     [Run [''git'', ''rev-parse'', ''--abbrev-ref'', ''HEAD''],
      Run [''git'', ''rev-parse'', ''--show-toplevel''],
      Mkdir (worktrees_dir env),
      Run [''git'', ''worktree'', ''add'', ''-b'', ''feature/'' @ name,
           worktrees_dir env @ ''/'' @ name, current_branch_out env]])"
    if "create_steps_succeed env"
    using create_worktree_success [OF that, of None "[]" name] first
    by (simp add: save_registry_def)
  have others:
    "merge_main menv (Some Malformed) (wid # rest) = (Inl JSONDecodeError, Some Malformed, [])"
    "cleanup_main cenv (Some Malformed) (wid # rest) = (Inl JSONDecodeError, Some Malformed, [])"
    "check_main kenv (Some Malformed) (wid # rest) = (Inl JSONDecodeError, [])"
    by (simp_all add: merge_main_def merge_worktree_def cleanup_main_def cleanup_worktree_def
          check_main_def check_pr_status_def)
  show ?thesis
    using main ok others create_worktree_malformed [of env name]
    by simp
qed

text \<open>The theorem at the scenario of the specification: \<^verbatim>\<open>auth-ui\<close> created on branch \<^verbatim>\<open>main\<close>.\<close>

theorem load_registry_missing_or_malformed_witness:
  "create_steps_succeed example_create_env \<and>
   valid_feature_name ''auth-ui'' \<and>
   fst (snd (create_worktree example_create_env None ''auth-ui''))
     = Some (Json [(''worktree-01'', example_record)]) \<and>
   exit_status (fst (create_main example_create_env (Some Malformed) [''auth-ui''])) = 1"
proof -
  have a: "create_steps_succeed example_create_env"
    by (simp add: create_steps_succeed_def example_create_env_def)
  have b: "valid_feature_name ''auth-ui''"
    by (simp add: valid_feature_name_def isalnum_def remove_char_def isalnum_char_def)
  have c: "created_record example_create_env ''worktree-01'' ''auth-ui'' = example_record"
    by (simp add: created_record_def example_create_env_def example_record_def)
  from a b c
    load_registry_missing_or_malformed [of example_create_env "''auth-ui''" "[]"]
  show ?thesis by simp
qed

text \<open>
  Claim C2 says that a successful create appends one new record under a fresh
  identifier. On the registry that holds the single record \<^verbatim>\<open>worktree-02\<close> (of the feature
  \<^verbatim>\<open>billing\<close>) the generated identifier is \<^verbatim>\<open>worktree-02\<close> again: the script exits with 0
  and the saved registry still has one record, the new one; the record of \<^verbatim>\<open>billing\<close> has
  been overwritten.
\<close>

theorem create_overwrites_on_id_collision:
  "generate_worktree_id [(''worktree-02'', example_record2)] = ''worktree-02'' \<and>
   get_worktree_info ''worktree-02'' [(''worktree-02'', example_record2)] = Some example_record2 \<and>
   feature_name example_record2 = ''billing'' \<and>
   fst (create_main example_create_env (Some (Json [(''worktree-02'', example_record2)])) [''auth-ui''])
     = Inl (SystemExit 0) \<and>
   fst (snd (create_main example_create_env (Some (Json [(''worktree-02'', example_record2)]))
               [''auth-ui'']))
     = Some (Json [(''worktree-02'', example_record\<lparr>wt_id := ''worktree-02''\<rparr>)])"
proof -
  have a: "create_steps_succeed example_create_env"
    by (simp add: create_steps_succeed_def example_create_env_def)
  have b: "valid_feature_name ''auth-ui''"
    by (simp add: valid_feature_name_def isalnum_def remove_char_def isalnum_char_def)
  have g: "generate_worktree_id [(''worktree-02'', example_record2)] = ''worktree-02''"
    by code_simp
  have c: "created_record example_create_env ''worktree-02'' ''auth-ui''
      = example_record\<lparr>wt_id := ''worktree-02''\<rparr>"
    by (simp add: created_record_def example_create_env_def example_record_def)
  have "create_worktree example_create_env (Some (Json [(''worktree-02'', example_record2)])) ''auth-ui''
      = (Inr (Some (example_record\<lparr>wt_id := ''worktree-02''\<rparr>)),
         Some (Json [(''worktree-02'', example_record\<lparr>wt_id := ''worktree-02''\<rparr>)]),
         [Run [''git'', ''rev-parse'', ''--abbrev-ref'', ''HEAD''],
          Run [''git'', ''rev-parse'', ''--show-toplevel''],
          Mkdir (worktrees_dir example_create_env),
          Run [''git'', ''worktree'', ''add'', ''-b'', ''feature/'' @ ''auth-ui'',
               worktrees_dir example_create_env @ ''/'' @ ''auth-ui'',
               current_branch_out example_create_env]])"
    using create_worktree_success [OF a, of "Some (Json [(''worktree-02'', example_record2)])"
        "[(''worktree-02'', example_record2)]" "''auth-ui''"] g c
    by (simp add: save_registry_def)
  with b g show ?thesis
    by (simp add: create_main_def get_worktree_info_def example_record2_def)
qed

section \<open>Merging a worktree\<close>

lemma found_nonempty: "get_worktree_info wid registry = Some w \<Longrightarrow> registry \<noteq> []"
  by (auto simp: get_worktree_info_def)

lemma merge_worktree_success:
  assumes "load_registry regfile = Inr registry" and "get_worktree_info wid registry = Some w"
    and "merge_git_found env" and "merge_checkout_rc env = 0" and "merge_rc env = 0"
  shows "merge_worktree env regfile wid
    = (Inr (), save_registry (merged_registry wid w registry), merge_commands w)"
  using assms found_nonempty [OF assms(2)]
  by (simp add: merge_worktree_def git_run_def Let_def merge_commands_def merged_registry_def)


lemma merge_worktree_failure:
  assumes "load_registry regfile = Inr registry" and "get_worktree_info wid registry = Some w"
    and "\<not> (merge_git_found env \<and> merge_checkout_rc env = 0 \<and> merge_rc env = 0)"
  shows "fst (snd (merge_worktree env regfile wid)) = regfile"
    and "exit_status (fst (merge_worktree env regfile wid)) = 1"
  using assms found_nonempty [OF assms(2)]
  by (auto simp: merge_worktree_def git_run_def Let_def)



section \<open>Cleaning up a worktree\<close>

lemma cleanup_worktree_completes:
  assumes "load_registry regfile = Inr registry" and "get_worktree_info wid registry = Some w"
    and "cleanup_git_found env"
  shows "fst (cleanup_worktree env regfile wid) = Inr ()"
    and "fst (snd (cleanup_worktree env regfile wid)) = save_registry (cleaned_registry wid w registry)"
  using assms found_nonempty [OF assms(2)]
  by (simp_all add: cleanup_worktree_def git_run_def Let_def cleaned_registry_def)






section \<open>What the operations change in the registry\<close>

text \<open>
  The merge and the cleanup script either leave the registry file as it is or save the
  loaded registry with the looked-up record's status replaced; the status check returns no
  file at all. A status update keeps the keys and their order, every other record, and every
  other field of the updated record; the merge commands use the base branch of the record.
\<close>

lemma merge_main_file_cases:
  "fst (snd (merge_main env regfile argv)) = regfile \<or>
   (\<exists>wid w registry. load_registry regfile = Inr registry \<and>
      get_worktree_info wid registry = Some w \<and>
      merge_main env regfile argv
        = (Inr (), save_registry (merged_registry wid w registry), merge_commands w))"
proof (cases argv)
  case Nil
  then show ?thesis by (simp add: merge_main_def)
next
  case (Cons wid rest)
  show ?thesis
  proof (cases "load_registry regfile")
    case (Inl e)
    with Cons show ?thesis by (simp add: merge_main_def merge_worktree_def)
  next
    case (Inr registry)
    show ?thesis
    proof (cases "get_worktree_info wid registry")
      case None
      with Cons Inr show ?thesis by (simp add: merge_main_def merge_worktree_def)
    next
      case (Some w)
      show ?thesis
      proof (cases "merge_git_found env \<and> merge_checkout_rc env = 0 \<and> merge_rc env = 0")
        case True
        with merge_worktree_success [OF Inr Some, of env] Cons Inr Some show ?thesis
          by (auto simp: merge_main_def)
      next
        case False
        with merge_worktree_failure(1) [OF Inr Some, of env] Cons show ?thesis
          by (simp add: merge_main_def)
      qed
    qed
  qed
qed

lemma cleanup_main_file_cases:
  "fst (snd (cleanup_main env regfile argv)) = regfile \<or>
   (\<exists>wid w registry. load_registry regfile = Inr registry \<and>
      get_worktree_info wid registry = Some w \<and>
      fst (snd (cleanup_main env regfile argv)) = save_registry (cleaned_registry wid w registry))"
proof (cases argv)
  case Nil
  then show ?thesis by (simp add: cleanup_main_def)
next
  case (Cons wid rest)
  show ?thesis
  proof (cases "load_registry regfile")
    case (Inl e)
    with Cons show ?thesis by (simp add: cleanup_main_def cleanup_worktree_def)
  next
    case (Inr registry)
    show ?thesis
    proof (cases "get_worktree_info wid registry")
      case None
      with Cons Inr show ?thesis by (simp add: cleanup_main_def cleanup_worktree_def)
    next
      case (Some w)
      show ?thesis
      proof (cases "cleanup_git_found env")
        case True
        with cleanup_worktree_completes(2) [OF Inr Some, of env] Cons Inr Some show ?thesis
          by (auto simp: cleanup_main_def)
      next
        case False
        with Cons Inr Some found_nonempty [OF Some] show ?thesis
          by (simp add: cleanup_main_def cleanup_worktree_def git_run_def Let_def)
      qed
    qed
  qed
qed

lemma status_update_keeps_rest:
  assumes "get_worktree_info wid registry = Some w"
  shows "map fst (AList.update wid (w\<lparr>status := s\<rparr>) registry) = map fst registry"
    and "k \<noteq> wid \<Longrightarrow>
      get_worktree_info k (AList.update wid (w\<lparr>status := s\<rparr>) registry) = get_worktree_info k registry"
    and "get_worktree_info wid (AList.update wid (w\<lparr>status := s\<rparr>) registry) = Some (w\<lparr>status := s\<rparr>)"
    and "(w\<lparr>status := s\<rparr>)\<lparr>status := status w\<rparr> = w"
proof -
  from assms have "wid \<in> set (map fst registry)"
    by (auto simp: get_worktree_info_def dest: map_of_SomeD intro: image_eqI [where x = "(wid, w)"])
  then show "map fst (AList.update wid (w\<lparr>status := s\<rparr>) registry) = map fst registry"
    by (simp add: update_keys)
qed (simp_all add: get_worktree_info_def update_conv')

lemma merge_reads_stored_base_branch:
  "hd (merge_commands w) = Run [''git'', ''checkout'', base_branch w] \<and>
   Run [''git'', ''rev-parse'', ''--abbrev-ref'', ''HEAD''] \<notin> set (merge_commands w)"
  by (simp add: merge_commands_def)

lemma script_env_check_keeps_file:
  "snd (run_check (script_env python_found clock checks cl wid) n regfile) = regfile"
  by (simp add: script_env_def)

text \<open>
  Claim C7 says that merge and cleanup change at most the status of the looked-up record
  (the lemmas above), that the stored base branch is read back, and that no operation ever
  removes a record from the registry. The create script does: on the registry that holds the
  single record \<^verbatim>\<open>worktree-02\<close> of the feature \<^verbatim>\<open>billing\<close>, creating \<^verbatim>\<open>auth-ui\<close> saves a
  registry in which the record of \<^verbatim>\<open>billing\<close> no longer occurs.
\<close>

theorem create_drops_existing_record:
  "load_registry (fst (snd (create_main example_create_env
       (Some (Json [(''worktree-02'', example_record2)])) [''auth-ui''])))
     = Inr [(''worktree-02'', example_record\<lparr>wt_id := ''worktree-02''\<rparr>)] \<and>
   example_record2 \<in> snd ` set [(''worktree-02'', example_record2)] \<and>
   example_record2 \<notin> snd ` set [(''worktree-02'', example_record\<lparr>wt_id := ''worktree-02''\<rparr>)]"
proof -
  have a: "create_steps_succeed example_create_env"
    by (simp add: create_steps_succeed_def example_create_env_def)
  have b: "valid_feature_name ''auth-ui''"
    by (simp add: valid_feature_name_def isalnum_def remove_char_def isalnum_char_def)
  have g: "generate_worktree_id [(''worktree-02'', example_record2)] = ''worktree-02''"
    by code_simp
  have c: "created_record example_create_env ''worktree-02'' ''auth-ui''
      = example_record\<lparr>wt_id := ''worktree-02''\<rparr>"
    by (simp add: created_record_def example_create_env_def example_record_def)
  have "fst (snd (create_worktree example_create_env
          (Some (Json [(''worktree-02'', example_record2)])) ''auth-ui''))
      = Some (Json [(''worktree-02'', example_record\<lparr>wt_id := ''worktree-02''\<rparr>)])"
    using create_worktree_success [OF a, of "Some (Json [(''worktree-02'', example_record2)])"
        "[(''worktree-02'', example_record2)]" "''auth-ui''"] g c
    by (simp add: save_registry_def)
  moreover have "fst (snd (create_main example_create_env
          (Some (Json [(''worktree-02'', example_record2)])) [''auth-ui'']))
      = fst (snd (create_worktree example_create_env
          (Some (Json [(''worktree-02'', example_record2)])) ''auth-ui''))"
    using b by (auto simp: create_main_def split: prod.splits sum.splits option.splits)
  ultimately show ?thesis
    by (simp add: example_record_def example_record2_def)
qed

section \<open>The polling loop\<close>



lemma poll_loop_not_found:
  assumes "run_check env (Suc n) w = (Not_found, w1)"
  shows "poll_loop env wid secs n w tr = Some (Inl FileNotFoundError, w1, tr @ [check_command wid])"
  using assms
  by (subst poll_loop.simps) (simp add: Let_def)













end
